theory Spec2Isabelle
  imports Complex_Main
begin

section \<open>JavaScript values\<close>

text \<open>
  The tools receive a loosely typed argument bag, so the values are modelled as the
  JavaScript values they are. A finite number is an exact rational (every finite double
  is one; rounding of literals is not modelled, and \<open>-0\<close> is identified with \<open>0\<close>, which
  no check of the program distinguishes). A string is the list of the bytes of its UTF-8
  encoding, so the strings are the well-formed ones (no lone surrogate, on which
  \<open>encodeURIComponent\<close> would throw). An object is the list of its own properties,
  first entry first.
\<close>

datatype jsnum = Fin rat | NaN | PosInf | NegInf

datatype jsval =
    JUndefined
  | JNull
  | JBool bool
  | JNum jsnum
  | JStr string
  | JArr "jsval list"
  | JObj "(string \<times> jsval) list"

datatype jstype = TUndefined | TObject | TBoolean | TNumber | TString

text \<open>The \<open>typeof\<close> operator.\<close>

fun typeof :: "jsval \<Rightarrow> jstype" where
  "typeof JUndefined = TUndefined"
| "typeof JNull = TObject"
| "typeof (JBool b) = TBoolean"
| "typeof (JNum n) = TNumber"
| "typeof (JStr s) = TString"
| "typeof (JArr xs) = TObject"
| "typeof (JObj kvs) = TObject"

text \<open>Truthiness, as \<open>!v\<close> and \<open>if (v)\<close> read it.\<close>

fun truthy :: "jsval \<Rightarrow> bool" where
  "truthy JUndefined = False"
| "truthy JNull = False"
| "truthy (JBool b) = b"
| "truthy (JNum (Fin r)) = (r \<noteq> 0)"
| "truthy (JNum NaN) = False"
| "truthy (JNum PosInf) = True"
| "truthy (JNum NegInf) = True"
| "truthy (JStr s) = (s \<noteq> [])"
| "truthy (JArr xs) = True"
| "truthy (JObj kvs) = True"

text \<open>\<open>Number.isInteger\<close> and the comparison \<open>n <= 0\<close> on numbers.\<close>

fun isInteger :: "jsnum \<Rightarrow> bool" where
  "isInteger (Fin r) = (of_int \<lfloor>r\<rfloor> = r)"
| "isInteger NaN = False"
| "isInteger PosInf = False"
| "isInteger NegInf = False"

fun le_zero :: "jsnum \<Rightarrow> bool" where
  "le_zero (Fin r) = (r \<le> 0)"
| "le_zero NaN = False"
| "le_zero PosInf = False"
| "le_zero NegInf = True"

text \<open>
  What can be thrown: an \<open>Error\<close> instance (a \<open>TypeError\<close> of the runtime is one too) with
  its message, an \<open>AxiosError\<close> with its message, the status of its response and its
  code, the plain \<open>ApiError\<close> object of the HTTP wrapper, or any other value.
\<close>

record ApiError =
  message :: string
  status :: "int option"
  code :: "string option"

datatype thrown =
    ErrorInst string
  | AxiosError string "int option" "string option"
  | ApiErrorObj ApiError
  | OtherThrown

text \<open>
  Property access \<open>o.k\<close>: an absent property reads as \<open>undefined\<close>; reading a property of
  \<open>null\<close> or \<open>undefined\<close> throws a \<open>TypeError\<close> (the message is the engine's). None of the
  property names the program reads is a property of a string, a number or an array.
\<close>

definition get_prop :: "(string \<times> jsval) list \<Rightarrow> string \<Rightarrow> jsval" where
  "get_prop kvs k = (case map_of kvs k of None \<Rightarrow> JUndefined | Some v \<Rightarrow> v)"

fun read_prop :: "jsval \<Rightarrow> string \<Rightarrow> thrown + jsval" where
  "read_prop JUndefined k =
     Inl (ErrorInst (''Cannot read properties of undefined (reading '' @ [CHR 0x27] @ k @ [CHR 0x27] @ '')''))"
| "read_prop JNull k =
     Inl (ErrorInst (''Cannot read properties of null (reading '' @ [CHR 0x27] @ k @ [CHR 0x27] @ '')''))"
| "read_prop (JObj kvs) k = Inr (get_prop kvs k)"
| "read_prop v k = Inr JUndefined"

section \<open>Strings: trim and encodeURIComponent\<close>

text \<open>
  The white space and line terminator code points that \<open>String.prototype.trim\<close> removes,
  in UTF-8: U+0009 to U+000D, U+0020, U+00A0, U+1680, U+2000 to U+200A, U+2028, U+2029,
  U+202F, U+205F, U+3000 and U+FEFF.
\<close>

definition ws_seqs :: "string list" where
  "ws_seqs =
     [[CHR 0x09], [CHR 0x0A], [CHR 0x0B], [CHR 0x0C], [CHR 0x0D], [CHR 0x20],
      [CHR 0xC2, CHR 0xA0],
      [CHR 0xE1, CHR 0x9A, CHR 0x80],
      [CHR 0xE2, CHR 0x80, CHR 0x80], [CHR 0xE2, CHR 0x80, CHR 0x81],
      [CHR 0xE2, CHR 0x80, CHR 0x82], [CHR 0xE2, CHR 0x80, CHR 0x83],
      [CHR 0xE2, CHR 0x80, CHR 0x84], [CHR 0xE2, CHR 0x80, CHR 0x85],
      [CHR 0xE2, CHR 0x80, CHR 0x86], [CHR 0xE2, CHR 0x80, CHR 0x87],
      [CHR 0xE2, CHR 0x80, CHR 0x88], [CHR 0xE2, CHR 0x80, CHR 0x89],
      [CHR 0xE2, CHR 0x80, CHR 0x8A],
      [CHR 0xE2, CHR 0x80, CHR 0xA8], [CHR 0xE2, CHR 0x80, CHR 0xA9],
      [CHR 0xE2, CHR 0x80, CHR 0xAF],
      [CHR 0xE2, CHR 0x81, CHR 0x9F],
      [CHR 0xE3, CHR 0x80, CHR 0x80],
      [CHR 0xEF, CHR 0xBB, CHR 0xBF]]"

text \<open>The length of the first of the sequences \<open>ws\<close> that \<open>s\<close> starts with, 0 if none.\<close>

fun lead_len :: "string list \<Rightarrow> string \<Rightarrow> nat" where
  "lead_len [] s = 0"
| "lead_len (w # ws) s =
     (if w \<noteq> [] \<and> take (length w) s = w then length w else lead_len ws s)"

function strip_lead :: "string list \<Rightarrow> string \<Rightarrow> string" where
  "strip_lead ws s =
     (if lead_len ws s = 0 then s else strip_lead ws (drop (lead_len ws s) s))"
  by pat_completeness auto
termination
proof (relation "measure (\<lambda>(ws, s). length s)")
  show "wf (measure (\<lambda>(ws, s). length s))" by simp
next
  fix ws :: "string list" and s :: string
  assume nz: "lead_len ws s \<noteq> 0"
  have "lead_len ws s \<le> length s"
  proof (induction ws)
    case Nil
    show ?case by simp
  next
    case (Cons w ws)
    have "take (length w) s = w \<Longrightarrow> length w \<le> length s"
      by (metis length_take min.cobounded1)
    with Cons show ?case by simp
  qed
  with nz show "((ws, drop (lead_len ws s) s), (ws, s)) \<in> measure (\<lambda>(ws, s). length s)"
    by simp
qed

declare strip_lead.simps [simp del]

definition trim :: "string \<Rightarrow> string" where
  "trim s = rev (strip_lead (map rev ws_seqs) (rev (strip_lead ws_seqs s)))"

text \<open>
  \<open>encodeURIComponent\<close>: the unreserved characters (ASCII letters, digits and
  \<open>- _ . ! ~ * ' ( )\<close>) stay; every other byte of the UTF-8 encoding becomes \<open>%XX\<close> with
  upper-case hexadecimal digits.
\<close>

definition unreserved :: "char \<Rightarrow> bool" where
  "unreserved c \<longleftrightarrow>
     c \<in> set ''ABCDEFGHIJKLMNOPQRSTUVWXYZabcdefghijklmnopqrstuvwxyz0123456789-_.!~*()''
     \<or> c = CHR 0x27"

definition hex_digit :: "nat \<Rightarrow> char" where
  "hex_digit n = ''0123456789ABCDEF'' ! (n mod 16)"

definition pct_encode :: "char \<Rightarrow> string" where
  "pct_encode c =
     (if unreserved c then [c]
      else [CHR ''%'', hex_digit (of_char c div 16), hex_digit (of_char c mod 16)])"

definition encodeURIComponent :: "string \<Rightarrow> string" where
  "encodeURIComponent s = concat (map pct_encode s)"

text \<open>Decimal digits of a natural number, for the \<open>index + 1\<close> of an error message.\<close>

fun show_nat :: "nat \<Rightarrow> string" where
  "show_nat n =
     (if n < 10 then [''0123456789'' ! n]
      else show_nat (n div 10) @ [''0123456789'' ! (n mod 10)])"

declare show_nat.simps [simp del]

section \<open>Validators\<close>

definition validatePositiveInteger :: "jsval \<Rightarrow> string \<Rightarrow> thrown + unit" where
  "validatePositiveInteger v fieldName =
     (case v of
        JNum n \<Rightarrow>
          if \<not> isInteger n \<or> le_zero n
          then Inl (ErrorInst (fieldName @ '' must be a positive integer''))
          else Inr ()
      | _ \<Rightarrow> Inl (ErrorInst (fieldName @ '' must be a positive integer'')))"

definition validateSortOrder :: "jsval \<Rightarrow> thrown + unit" where
  "validateSortOrder v =
     (if v \<noteq> JUndefined \<and> v \<noteq> JStr ''asc'' \<and> v \<noteq> JStr ''desc''
      then Inl (ErrorInst (''Sort order must be '' @ [CHR 0x22] @ ''asc'' @ [CHR 0x22]
                             @ '' or '' @ [CHR 0x22] @ ''desc'' @ [CHR 0x22]))
      else Inr ())"

definition validateLimit :: "jsval \<Rightarrow> thrown + unit" where
  "validateLimit v =
     (if v \<noteq> JUndefined then
        (case v of
           JNum n \<Rightarrow>
             if \<not> isInteger n \<or> le_zero n
             then Inl (ErrorInst ''Limit must be a positive integer'')
             else Inr ()
         | _ \<Rightarrow> Inl (ErrorInst ''Limit must be a positive integer''))
      else Inr ())"

definition validateString :: "jsval \<Rightarrow> string \<Rightarrow> thrown + unit" where
  "validateString v fieldName =
     (case v of
        JStr s \<Rightarrow>
          if length (trim s) = 0
          then Inl (ErrorInst (fieldName @ '' must be a non-empty string''))
          else Inr ()
      | _ \<Rightarrow> Inl (ErrorInst (fieldName @ '' must be a non-empty string'')))"

text \<open>
  The pattern \<open>/^[^\s@]+@[^\s@]+\.[^\s@]+$/\<close>: no white space anywhere, exactly one
  \<open>@\<close>, something before it, and after it a dot with something on both sides.
\<close>

fun has_ws :: "string \<Rightarrow> bool" where
  "has_ws [] = False"
| "has_ws (c # cs) = (lead_len ws_seqs (c # cs) \<noteq> 0 \<or> has_ws cs)"

definition email_pattern :: "string \<Rightarrow> bool" where
  "email_pattern s =
     (let local = takeWhile (\<lambda>c. c \<noteq> CHR ''@'') s;
          rest = drop (Suc (length local)) s
      in \<not> has_ws s \<and> local \<noteq> [] \<and> length local < length s
         \<and> CHR ''@'' \<notin> set rest \<and> CHR ''.'' \<in> set (butlast (tl rest)))"

definition validateEmail :: "jsval \<Rightarrow> thrown + unit" where
  "validateEmail v =
     (case v of
        JStr s \<Rightarrow> if \<not> email_pattern s then Inl (ErrorInst ''Invalid email format'') else Inr ()
      | _ \<Rightarrow> Inl (ErrorInst ''Invalid email format''))"

text \<open>
  \<open>validateUrl\<close> calls the platform's \<open>new URL\<close>, which is not part of the program: it is
  the parameter \<open>parseUrl\<close>, giving the \<open>protocol\<close> of the parsed URL, or \<open>None\<close> where the
  constructor throws. The error thrown for another protocol is raised inside the \<open>try\<close>
  block, so the \<open>catch\<close> replaces it by the "valid URL" error.
\<close>

type_synonym url_parser = "string \<Rightarrow> string option"

definition validateUrl :: "url_parser \<Rightarrow> jsval \<Rightarrow> string \<Rightarrow> thrown + unit" where
  "validateUrl parseUrl v fieldName =
     (case v of
        JStr s \<Rightarrow>
          if length (trim s) = 0
          then Inl (ErrorInst (fieldName @ '' must be a non-empty string''))
          else (case parseUrl s of
                  None \<Rightarrow> Inl (ErrorInst (fieldName @ '' must be a valid URL''))
                | Some protocol \<Rightarrow>
                    if protocol \<notin> set [''http:'', ''https:'']
                    then Inl (ErrorInst (fieldName @ '' must be a valid URL''))
                    else Inr ())
      | _ \<Rightarrow> Inl (ErrorInst (fieldName @ '' must be a non-empty string'')))"

definition sanitizePathSegment :: "string \<Rightarrow> string" where
  "sanitizePathSegment s = encodeURIComponent (trim s)"

section \<open>HTTP client wrapper\<close>

text \<open>
  A request path is a fixed string, or a template \<open>`prefix${v}`\<close> whose hole holds a value
  that the template converts to a string. A request is what a wrapper operation hands to
  the axios instance.
\<close>

datatype endpoint = Path string | PathVal string jsval

datatype request =
    GET endpoint "(string \<times> jsval) list option"
  | POST endpoint jsval
  | PUT endpoint jsval
  | DELETE endpoint

text \<open>
  The module state is the counter \<open>requestCount\<close>. The pending \<open>setTimeout\<close> callbacks are
  kept as the list of the times (in milliseconds) at which they are due, and \<open>forwarded\<close>
  is the trace of the requests that went past the interceptor to the transport.
\<close>

record api_state =
  requestCount :: nat
  timers :: "nat list"
  forwarded :: "request list"

definition RATE_LIMIT :: nat where
  "RATE_LIMIT = 100"

definition RATE_LIMIT_WINDOW :: nat where
  "RATE_LIMIT_WINDOW = 60000"

text \<open>The request interceptor, run at time \<open>now\<close>.\<close>

definition interceptor :: "nat \<Rightarrow> api_state \<Rightarrow> (thrown + unit) \<times> api_state" where
  "interceptor now st =
     (let st1 = st\<lparr>requestCount := requestCount st + 1\<rparr>
      in if requestCount st1 > RATE_LIMIT
         then (Inl (ErrorInst (''Rate limit exceeded. Maximum '' @ show_nat RATE_LIMIT
                                @ '' requests per minute allowed.'')), st1)
         else (Inr (), st1\<lparr>timers := timers st1 @ [now + RATE_LIMIT_WINDOW]\<rparr>))"

text \<open>The callback of a timer, and the event loop running every callback due at \<open>now\<close>.\<close>

definition timer_callback :: "api_state \<Rightarrow> api_state" where
  "timer_callback st = (if requestCount st > 0 then st\<lparr>requestCount := requestCount st - 1\<rparr> else st)"

definition run_timers :: "nat \<Rightarrow> api_state \<Rightarrow> api_state" where
  "run_timers now st =
     (fold (\<lambda>t s. timer_callback s) (filter (\<lambda>t. t \<le> now) (timers st)) st)
       \<lparr>timers := filter (\<lambda>t. \<not> t \<le> now) (timers st)\<rparr>"

text \<open>
  The transport (the network and the upstream service) is a parameter: for a request it
  gives the response data of a 2xx answer, or what the axios promise rejects with.
\<close>

datatype outcome = Response jsval | Rejected thrown

type_synonym transport = "request \<Rightarrow> outcome"

definition api_call ::
  "transport \<Rightarrow> nat \<Rightarrow> request \<Rightarrow> api_state \<Rightarrow> (thrown + jsval) \<times> api_state" where
  "api_call net now req st =
     (case interceptor now st of
        (Inl e, st1) \<Rightarrow> (Inl e, st1)
      | (Inr u, st1) \<Rightarrow>
          (let st2 = st1\<lparr>forwarded := forwarded st1 @ [req]\<rparr>
           in case net req of
                Response d \<Rightarrow> (Inr d, st2)
              | Rejected e \<Rightarrow> (Inl e, st2)))"

fun handleApiError :: "thrown \<Rightarrow> ApiError" where
  "handleApiError (AxiosError m s c) =
     \<lparr>message = (if m \<noteq> [] then m else ''API request failed''), status = s, code = c\<rparr>"
| "handleApiError (ErrorInst m) = \<lparr>message = m, status = None, code = None\<rparr>"
| "handleApiError e = \<lparr>message = ''Unknown error occurred'', status = None, code = None\<rparr>"

definition wrap ::
  "transport \<Rightarrow> nat \<Rightarrow> request \<Rightarrow> api_state \<Rightarrow> (thrown + jsval) \<times> api_state" where
  "wrap net now req st =
     (case api_call net now req st of
        (Inr d, st') \<Rightarrow> (Inr d, st')
      | (Inl e, st') \<Rightarrow> (Inl (ApiErrorObj (handleApiError e)), st'))"

definition get ::
  "transport \<Rightarrow> nat \<Rightarrow> endpoint \<Rightarrow> (string \<times> jsval) list option \<Rightarrow> api_state
     \<Rightarrow> (thrown + jsval) \<times> api_state" where
  "get net now endpoint params st = wrap net now (GET endpoint params) st"

definition post ::
  "transport \<Rightarrow> nat \<Rightarrow> endpoint \<Rightarrow> jsval \<Rightarrow> api_state \<Rightarrow> (thrown + jsval) \<times> api_state" where
  "post net now endpoint data st = wrap net now (POST endpoint data) st"

definition put ::
  "transport \<Rightarrow> nat \<Rightarrow> endpoint \<Rightarrow> jsval \<Rightarrow> api_state \<Rightarrow> (thrown + jsval) \<times> api_state" where
  "put net now endpoint data st = wrap net now (PUT endpoint data) st"

definition del ::
  "transport \<Rightarrow> nat \<Rightarrow> endpoint \<Rightarrow> api_state \<Rightarrow> (thrown + jsval) \<times> api_state" where
  "del net now endpoint st = wrap net now (DELETE endpoint) st"

section \<open>Resource modules\<close>

text \<open>
  A tool function takes the argument bag of the invocation, \<open>None\<close> when the request has
  no \<open>arguments\<close>; destructuring \<open>undefined\<close> throws a \<open>TypeError\<close> naming the first
  property of the pattern (the wording is V8's). Its result is the settled promise: the
  response data, or what was thrown, with the state of the HTTP module afterwards.
\<close>

type_synonym args = "(string \<times> jsval) list option"

type_synonym result = "(thrown + jsval) \<times> api_state"

definition destructure_error :: "string \<Rightarrow> thrown" where
  "destructure_error k =
     ErrorInst (''Cannot destructure property '' @ [CHR 0x27] @ k @ [CHR 0x27] @ '' of ''
                @ [CHR 0x27] @ ''args'' @ [CHR 0x27] @ '' as it is undefined.'')"

text \<open>The query parameters of the three list operations.\<close>

definition list_params :: "jsval \<Rightarrow> jsval \<Rightarrow> (string \<times> jsval) list" where
  "list_params limit sort' =
     (if truthy limit then [(''limit'', limit)] else [])
     @ (if truthy sort' then [(''sort'', sort')] else [])"

text \<open>An assignment \<open>if (v !== undefined) updateData.k = v\<close>.\<close>

definition opt_field :: "string \<Rightarrow> jsval \<Rightarrow> (string \<times> jsval) list" where
  "opt_field k v = (if v \<noteq> JUndefined then [(k, v)] else [])"

subsection \<open>Products\<close>

definition getAllProducts :: "transport \<Rightarrow> nat \<Rightarrow> args \<Rightarrow> api_state \<Rightarrow> result" where
  "getAllProducts net now args st =
     (case args of
        None \<Rightarrow> (Inl (destructure_error ''limit''), st)
      | Some a \<Rightarrow>
          (let limit = get_prop a ''limit''; sort' = get_prop a ''sort'' in
           case (if limit \<noteq> JUndefined then validateLimit limit else Inr ()) of
             Inl e \<Rightarrow> (Inl e, st)
           | Inr u \<Rightarrow>
               (case (if sort' \<noteq> JUndefined then validateSortOrder sort' else Inr ()) of
                  Inl e \<Rightarrow> (Inl e, st)
                | Inr u \<Rightarrow> get net now (Path ''/products'') (Some (list_params limit sort')) st)))"

definition getProductById :: "transport \<Rightarrow> nat \<Rightarrow> args \<Rightarrow> api_state \<Rightarrow> result" where
  "getProductById net now args st =
     (case args of
        None \<Rightarrow> (Inl (destructure_error ''id''), st)
      | Some a \<Rightarrow>
          (let id' = get_prop a ''id'' in
           case validatePositiveInteger id' ''Product ID'' of
             Inl e \<Rightarrow> (Inl e, st)
           | Inr u \<Rightarrow> get net now (PathVal ''/products/'' id') None st))"

definition getCategories :: "transport \<Rightarrow> nat \<Rightarrow> api_state \<Rightarrow> result" where
  "getCategories net now st = get net now (Path ''/products/categories'') None st"

definition getProductsByCategory :: "transport \<Rightarrow> nat \<Rightarrow> args \<Rightarrow> api_state \<Rightarrow> result" where
  "getProductsByCategory net now args st =
     (case args of
        None \<Rightarrow> (Inl (destructure_error ''category''), st)
      | Some a \<Rightarrow>
          (case get_prop a ''category'' of
             JStr category \<Rightarrow>
               if category = []
               then (Inl (ErrorInst ''Category must be a non-empty string''), st)
               else get net now (Path (''/products/category/'' @ sanitizePathSegment category))
                      None st
           | v \<Rightarrow> (Inl (ErrorInst ''Category must be a non-empty string''), st)))"

text \<open>The test \<open>typeof v !== 'number' || v <= 0\<close>.\<close>

definition not_positive_number :: "jsval \<Rightarrow> bool" where
  "not_positive_number v = (case v of JNum n \<Rightarrow> le_zero n | _ \<Rightarrow> True)"

text \<open>The test \<open>!v || typeof v !== 'string'\<close>.\<close>

definition not_nonempty_string :: "jsval \<Rightarrow> bool" where
  "not_nonempty_string v = (\<not> truthy v \<or> typeof v \<noteq> TString)"

definition addProduct ::
  "url_parser \<Rightarrow> transport \<Rightarrow> nat \<Rightarrow> args \<Rightarrow> api_state \<Rightarrow> result" where
  "addProduct parseUrl net now args st =
     (case args of
        None \<Rightarrow> (Inl (destructure_error ''title''), st)
      | Some a \<Rightarrow>
          (let title = get_prop a ''title''; price = get_prop a ''price'';
               description = get_prop a ''description''; image = get_prop a ''image'';
               category = get_prop a ''category'' in
           if not_nonempty_string title
           then (Inl (ErrorInst ''Title must be a non-empty string''), st)
           else if not_positive_number price
           then (Inl (ErrorInst ''Price must be a positive number''), st)
           else if not_nonempty_string description
           then (Inl (ErrorInst ''Description must be a non-empty string''), st)
           else (case validateUrl parseUrl image ''Image URL'' of
                   Inl e \<Rightarrow> (Inl e, st)
                 | Inr u \<Rightarrow>
                     if not_nonempty_string category
                     then (Inl (ErrorInst ''Category must be a non-empty string''), st)
                     else post net now (Path ''/products'')
                            (JObj [(''title'', title), (''price'', price),
                                   (''description'', description), (''image'', image),
                                   (''category'', category)]) st)))"

definition updateProduct ::
  "url_parser \<Rightarrow> transport \<Rightarrow> nat \<Rightarrow> args \<Rightarrow> api_state \<Rightarrow> result" where
  "updateProduct parseUrl net now args st =
     (case args of
        None \<Rightarrow> (Inl (destructure_error ''id''), st)
      | Some a \<Rightarrow>
          (let id' = get_prop a ''id''; title = get_prop a ''title''; price = get_prop a ''price'';
               description = get_prop a ''description''; image = get_prop a ''image'';
               category = get_prop a ''category'' in
           case validatePositiveInteger id' ''Product ID'' of
             Inl e \<Rightarrow> (Inl e, st)
           | Inr u \<Rightarrow>
               (case (if image \<noteq> JUndefined then validateUrl parseUrl image ''Image URL''
                      else Inr ()) of
                  Inl e \<Rightarrow> (Inl e, st)
                | Inr u \<Rightarrow>
                    put net now (PathVal ''/products/'' id')
                      (JObj (opt_field ''title'' title @ opt_field ''price'' price
                             @ opt_field ''description'' description
                             @ opt_field ''image'' image
                             @ opt_field ''category'' category)) st)))"

definition deleteProduct :: "transport \<Rightarrow> nat \<Rightarrow> args \<Rightarrow> api_state \<Rightarrow> result" where
  "deleteProduct net now args st =
     (case args of
        None \<Rightarrow> (Inl (destructure_error ''id''), st)
      | Some a \<Rightarrow>
          (let id' = get_prop a ''id'' in
           case validatePositiveInteger id' ''Product ID'' of
             Inl e \<Rightarrow> (Inl e, st)
           | Inr u \<Rightarrow> del net now (PathVal ''/products/'' id') st))"

subsection \<open>Carts\<close>

definition getAllCarts :: "transport \<Rightarrow> nat \<Rightarrow> args \<Rightarrow> api_state \<Rightarrow> result" where
  "getAllCarts net now args st =
     (case args of
        None \<Rightarrow> (Inl (destructure_error ''limit''), st)
      | Some a \<Rightarrow>
          (let limit = get_prop a ''limit''; sort' = get_prop a ''sort'' in
           case (if limit \<noteq> JUndefined then validateLimit limit else Inr ()) of
             Inl e \<Rightarrow> (Inl e, st)
           | Inr u \<Rightarrow>
               (case (if sort' \<noteq> JUndefined then validateSortOrder sort' else Inr ()) of
                  Inl e \<Rightarrow> (Inl e, st)
                | Inr u \<Rightarrow> get net now (Path ''/carts'') (Some (list_params limit sort')) st)))"

definition getCartById :: "transport \<Rightarrow> nat \<Rightarrow> args \<Rightarrow> api_state \<Rightarrow> result" where
  "getCartById net now args st =
     (case args of
        None \<Rightarrow> (Inl (destructure_error ''id''), st)
      | Some a \<Rightarrow>
          (let id' = get_prop a ''id'' in
           case validatePositiveInteger id' ''Cart ID'' of
             Inl e \<Rightarrow> (Inl e, st)
           | Inr u \<Rightarrow> get net now (PathVal ''/carts/'' id') None st))"

definition getUserCarts :: "transport \<Rightarrow> nat \<Rightarrow> args \<Rightarrow> api_state \<Rightarrow> result" where
  "getUserCarts net now args st =
     (case args of
        None \<Rightarrow> (Inl (destructure_error ''userId''), st)
      | Some a \<Rightarrow>
          (let userId = get_prop a ''userId'' in
           case validatePositiveInteger userId ''User ID'' of
             Inl e \<Rightarrow> (Inl e, st)
           | Inr u \<Rightarrow> get net now (PathVal ''/carts/user/'' userId) None st))"

text \<open>
  The \<open>forEach\<close> over the products of \<open>addCart\<close>; \<open>i\<close> is the index of the first element
  of the list.
\<close>

fun check_products :: "nat \<Rightarrow> jsval list \<Rightarrow> thrown + unit" where
  "check_products i [] = Inr ()"
| "check_products i (product # rest) =
     (case read_prop product ''productId'' of
        Inl e \<Rightarrow> Inl e
      | Inr productId \<Rightarrow>
          if not_positive_number productId
          then Inl (ErrorInst (''Product '' @ show_nat (i + 1)
                               @ '': productId must be a positive number''))
          else (case read_prop product ''quantity'' of
                  Inl e \<Rightarrow> Inl e
                | Inr quantity \<Rightarrow>
                    if not_positive_number quantity
                    then Inl (ErrorInst (''Product '' @ show_nat (i + 1)
                                         @ '': quantity must be a positive number''))
                    else check_products (i + 1) rest))"

definition addCart :: "transport \<Rightarrow> nat \<Rightarrow> args \<Rightarrow> api_state \<Rightarrow> result" where
  "addCart net now args st =
     (case args of
        None \<Rightarrow> (Inl (destructure_error ''userId''), st)
      | Some a \<Rightarrow>
          (let userId = get_prop a ''userId''; date = get_prop a ''date'';
               products = get_prop a ''products'' in
           case validatePositiveInteger userId ''User ID'' of
             Inl e \<Rightarrow> (Inl e, st)
           | Inr u \<Rightarrow>
               if not_nonempty_string date
               then (Inl (ErrorInst ''Date must be a non-empty string''), st)
               else (case products of
                       JArr ps \<Rightarrow>
                         if length ps = 0
                         then (Inl (ErrorInst ''Products must be a non-empty array''), st)
                         else (case check_products 0 ps of
                                 Inl e \<Rightarrow> (Inl e, st)
                               | Inr u \<Rightarrow>
                                   post net now (Path ''/carts'')
                                     (JObj [(''userId'', userId), (''date'', date),
                                            (''products'', products)]) st)
                     | v \<Rightarrow> (Inl (ErrorInst ''Products must be a non-empty array''), st))))"

definition updateCart :: "transport \<Rightarrow> nat \<Rightarrow> args \<Rightarrow> api_state \<Rightarrow> result" where
  "updateCart net now args st =
     (case args of
        None \<Rightarrow> (Inl (destructure_error ''id''), st)
      | Some a \<Rightarrow>
          (let id' = get_prop a ''id''; userId = get_prop a ''userId'';
               date = get_prop a ''date''; products = get_prop a ''products'' in
           case validatePositiveInteger id' ''Cart ID'' of
             Inl e \<Rightarrow> (Inl e, st)
           | Inr u \<Rightarrow>
               (case (if userId \<noteq> JUndefined then validatePositiveInteger userId ''User ID''
                      else Inr ()) of
                  Inl e \<Rightarrow> (Inl e, st)
                | Inr u \<Rightarrow>
                    (case (if products \<noteq> JUndefined then
                             (case products of
                                JArr ps \<Rightarrow>
                                  if length ps = 0
                                  then Inl (ErrorInst ''Products must be a non-empty array'')
                                  else Inr ()
                              | v \<Rightarrow> Inl (ErrorInst ''Products must be a non-empty array''))
                           else Inr ()) of
                       Inl e \<Rightarrow> (Inl e, st)
                     | Inr u \<Rightarrow>
                         put net now (PathVal ''/carts/'' id')
                           (JObj (opt_field ''userId'' userId @ opt_field ''date'' date
                                  @ opt_field ''products'' products)) st))))"

definition deleteCart :: "transport \<Rightarrow> nat \<Rightarrow> args \<Rightarrow> api_state \<Rightarrow> result" where
  "deleteCart net now args st =
     (case args of
        None \<Rightarrow> (Inl (destructure_error ''id''), st)
      | Some a \<Rightarrow>
          (let id' = get_prop a ''id'' in
           case validatePositiveInteger id' ''Cart ID'' of
             Inl e \<Rightarrow> (Inl e, st)
           | Inr u \<Rightarrow> del net now (PathVal ''/carts/'' id') st))"

subsection \<open>Users\<close>

definition getAllUsers :: "transport \<Rightarrow> nat \<Rightarrow> args \<Rightarrow> api_state \<Rightarrow> result" where
  "getAllUsers net now args st =
     (case args of
        None \<Rightarrow> (Inl (destructure_error ''limit''), st)
      | Some a \<Rightarrow>
          (let limit = get_prop a ''limit''; sort' = get_prop a ''sort'' in
           case (if limit \<noteq> JUndefined then validateLimit limit else Inr ()) of
             Inl e \<Rightarrow> (Inl e, st)
           | Inr u \<Rightarrow>
               (case (if sort' \<noteq> JUndefined then validateSortOrder sort' else Inr ()) of
                  Inl e \<Rightarrow> (Inl e, st)
                | Inr u \<Rightarrow> get net now (Path ''/users'') (Some (list_params limit sort')) st)))"

definition getUserById :: "transport \<Rightarrow> nat \<Rightarrow> args \<Rightarrow> api_state \<Rightarrow> result" where
  "getUserById net now args st =
     (case args of
        None \<Rightarrow> (Inl (destructure_error ''id''), st)
      | Some a \<Rightarrow>
          (let id' = get_prop a ''id'' in
           case validatePositiveInteger id' ''User ID'' of
             Inl e \<Rightarrow> (Inl e, st)
           | Inr u \<Rightarrow> get net now (PathVal ''/users/'' id') None st))"

definition addUser :: "transport \<Rightarrow> nat \<Rightarrow> args \<Rightarrow> api_state \<Rightarrow> result" where
  "addUser net now args st =
     (case args of
        None \<Rightarrow> (Inl (destructure_error ''email''), st)
      | Some a \<Rightarrow>
          (let email = get_prop a ''email''; username = get_prop a ''username'';
               password = get_prop a ''password''; firstname = get_prop a ''firstname'';
               lastname = get_prop a ''lastname''; city = get_prop a ''city'';
               street = get_prop a ''street''; number = get_prop a ''number'';
               zipcode = get_prop a ''zipcode''; lat = get_prop a ''lat'';
               long = get_prop a ''long''; phone = get_prop a ''phone'' in
           if not_nonempty_string email
           then (Inl (ErrorInst ''Email must be a non-empty string''), st)
           else if not_nonempty_string username
           then (Inl (ErrorInst ''Username must be a non-empty string''), st)
           else if not_nonempty_string password
           then (Inl (ErrorInst ''Password must be a non-empty string''), st)
           else if not_nonempty_string firstname
           then (Inl (ErrorInst ''First name must be a non-empty string''), st)
           else if not_nonempty_string lastname
           then (Inl (ErrorInst ''Last name must be a non-empty string''), st)
           else post net now (Path ''/users'')
                  (JObj [(''email'', email), (''username'', username),
                         (''password'', password),
                         (''name'', JObj [(''firstname'', firstname), (''lastname'', lastname)]),
                         (''address'',
                            JObj [(''city'', city), (''street'', street), (''number'', number),
                                  (''zipcode'', zipcode),
                                  (''geolocation'', JObj [(''lat'', lat), (''long'', long)])]),
                         (''phone'', phone)]) st))"

text \<open>The body that \<open>updateUser\<close> builds from the supplied fields.\<close>

definition user_update_data ::
  "jsval \<Rightarrow> jsval \<Rightarrow> jsval \<Rightarrow> jsval \<Rightarrow> jsval \<Rightarrow> jsval \<Rightarrow> jsval \<Rightarrow> jsval \<Rightarrow> jsval \<Rightarrow> jsval
     \<Rightarrow> jsval \<Rightarrow> jsval \<Rightarrow> (string \<times> jsval) list" where
  "user_update_data email username password firstname lastname city street number zipcode
     lat long phone =
     opt_field ''email'' email @ opt_field ''username'' username
     @ opt_field ''password'' password @ opt_field ''phone'' phone
     @ (if firstname \<noteq> JUndefined \<or> lastname \<noteq> JUndefined
        then [(''name'', JObj (opt_field ''firstname'' firstname
                               @ opt_field ''lastname'' lastname))]
        else [])
     @ (if city \<noteq> JUndefined \<or> street \<noteq> JUndefined \<or> number \<noteq> JUndefined
           \<or> zipcode \<noteq> JUndefined \<or> lat \<noteq> JUndefined \<or> long \<noteq> JUndefined
        then [(''address'',
                 JObj (opt_field ''city'' city @ opt_field ''street'' street
                       @ opt_field ''number'' number @ opt_field ''zipcode'' zipcode
                       @ (if lat \<noteq> JUndefined \<or> long \<noteq> JUndefined
                          then [(''geolocation'',
                                   JObj (opt_field ''lat'' lat @ opt_field ''long'' long))]
                          else [])))]
        else [])"

definition updateUser :: "transport \<Rightarrow> nat \<Rightarrow> args \<Rightarrow> api_state \<Rightarrow> result" where
  "updateUser net now args st =
     (case args of
        None \<Rightarrow> (Inl (destructure_error ''id''), st)
      | Some a \<Rightarrow>
          (let id' = get_prop a ''id'' in
           case validatePositiveInteger id' ''User ID'' of
             Inl e \<Rightarrow> (Inl e, st)
           | Inr u \<Rightarrow>
               put net now (PathVal ''/users/'' id')
                 (JObj (user_update_data (get_prop a ''email'') (get_prop a ''username'')
                          (get_prop a ''password'') (get_prop a ''firstname'')
                          (get_prop a ''lastname'') (get_prop a ''city'')
                          (get_prop a ''street'') (get_prop a ''number'')
                          (get_prop a ''zipcode'') (get_prop a ''lat'')
                          (get_prop a ''long'') (get_prop a ''phone''))) st))"

definition deleteUser :: "transport \<Rightarrow> nat \<Rightarrow> args \<Rightarrow> api_state \<Rightarrow> result" where
  "deleteUser net now args st =
     (case args of
        None \<Rightarrow> (Inl (destructure_error ''id''), st)
      | Some a \<Rightarrow>
          (let id' = get_prop a ''id'' in
           case validatePositiveInteger id' ''User ID'' of
             Inl e \<Rightarrow> (Inl e, st)
           | Inr u \<Rightarrow> del net now (PathVal ''/users/'' id') st))"

section \<open>Dispatcher\<close>

text \<open>
  The response of the tool-call handler: the text of its single content item and the
  \<open>isError\<close> flag (absent, read as \<open>False\<close>, on success). The text of a success is
  \<open>JSON.stringify(result, null, 2)\<close>, kept as that expression.
\<close>

datatype text_value = Stringified jsval | Literal string

record envelope =
  content_text :: text_value
  isError :: bool

text \<open>The \<open>try\<close> block: the chain of comparisons of the tool name.\<close>

definition call_tool ::
  "url_parser \<Rightarrow> transport \<Rightarrow> nat \<Rightarrow> string \<Rightarrow> args \<Rightarrow> api_state \<Rightarrow> result" where
  "call_tool parseUrl net now name args st =
     (if name = ''fakestore_get_products'' then getAllProducts net now args st
      else if name = ''fakestore_get_product'' then getProductById net now args st
      else if name = ''fakestore_get_categories'' then getCategories net now st
      else if name = ''fakestore_get_products_by_category''
        then getProductsByCategory net now args st
      else if name = ''fakestore_add_product'' then addProduct parseUrl net now args st
      else if name = ''fakestore_update_product'' then updateProduct parseUrl net now args st
      else if name = ''fakestore_delete_product'' then deleteProduct net now args st
      else if name = ''fakestore_get_carts'' then getAllCarts net now args st
      else if name = ''fakestore_get_cart'' then getCartById net now args st
      else if name = ''fakestore_get_user_carts'' then getUserCarts net now args st
      else if name = ''fakestore_add_cart'' then addCart net now args st
      else if name = ''fakestore_update_cart'' then updateCart net now args st
      else if name = ''fakestore_delete_cart'' then deleteCart net now args st
      else if name = ''fakestore_get_users'' then getAllUsers net now args st
      else if name = ''fakestore_get_user'' then getUserById net now args st
      else if name = ''fakestore_add_user'' then addUser net now args st
      else if name = ''fakestore_update_user'' then updateUser net now args st
      else if name = ''fakestore_delete_user'' then deleteUser net now args st
      else (Inl (ErrorInst (''Unknown tool: '' @ name)), st))"

text \<open>The names that the chain compares with.\<close>

definition tool_names :: "string list" where
  "tool_names =
     [''fakestore_get_products'', ''fakestore_get_product'', ''fakestore_get_categories'',
      ''fakestore_get_products_by_category'', ''fakestore_add_product'',
      ''fakestore_update_product'', ''fakestore_delete_product'',
      ''fakestore_get_carts'', ''fakestore_get_cart'', ''fakestore_get_user_carts'',
      ''fakestore_add_cart'', ''fakestore_update_cart'', ''fakestore_delete_cart'',
      ''fakestore_get_users'', ''fakestore_get_user'', ''fakestore_add_user'',
      ''fakestore_update_user'', ''fakestore_delete_user'']"

text \<open>The \<open>catch\<close> block: \<open>error instanceof Error ? error.message : 'Unknown error occurred'\<close>.\<close>

fun errorMessage :: "thrown \<Rightarrow> string" where
  "errorMessage (ErrorInst m) = m"
| "errorMessage (AxiosError m s c) = m"
| "errorMessage e = ''Unknown error occurred''"

definition handler ::
  "url_parser \<Rightarrow> transport \<Rightarrow> nat \<Rightarrow> string \<Rightarrow> args \<Rightarrow> api_state \<Rightarrow> envelope \<times> api_state" where
  "handler parseUrl net now name args st =
     (case call_tool parseUrl net now name args st of
        (Inr r, st') \<Rightarrow> (\<lparr>content_text = Stringified r, isError = False\<rparr>, st')
      | (Inl e, st') \<Rightarrow>
          (\<lparr>content_text = Literal (''Error: '' @ errorMessage e), isError = True\<rparr>, st'))"

section \<open>Notions used by the properties\<close>

text \<open>A value is a positive integer: a finite number, integral and above zero.\<close>

fun positive_integer :: "jsval \<Rightarrow> bool" where
  "positive_integer (JNum (Fin r)) = (0 < r \<and> of_int \<lfloor>r\<rfloor> = r)"
| "positive_integer v = False"


text \<open>An initial state of the HTTP module and a transport that answers every request.\<close>

definition st0 :: api_state where
  "st0 = \<lparr>requestCount = 0, timers = [], forwarded = []\<rparr>"

definition net_ok :: transport where
  "net_ok req = Response JNull"

text \<open>A request stands for the wrapper operation that sends it.\<close>

definition wrapper_op :: "transport \<Rightarrow> nat \<Rightarrow> request \<Rightarrow> api_state \<Rightarrow> result" where
  "wrapper_op net now req st =
     (case req of
        GET ep ps \<Rightarrow> get net now ep ps st
      | POST ep d \<Rightarrow> post net now ep d st
      | PUT ep d \<Rightarrow> put net now ep d st
      | DELETE ep \<Rightarrow> del net now ep st)"

text \<open>A settled wrapper call is normalized: it has response data, or it threw an \<open>ApiError\<close>.\<close>

fun normalized :: "thrown + jsval \<Rightarrow> bool" where
  "normalized (Inr d) = True"
| "normalized (Inl (ApiErrorObj ae)) = True"
| "normalized (Inl e) = False"

text \<open>
  Sample inputs: a URL parser that knows one image URL, and the arguments of \<open>addProduct\<close>
  for a mug at a given price.
\<close>

definition url_demo :: url_parser where
  "url_demo s = (if s = ''https://example.com/mug.png'' then Some ''https:'' else None)"

definition mug :: "jsval \<Rightarrow> (string \<times> jsval) list" where
  "mug price =
     [(''title'', JStr ''Mug''), (''price'', price), (''description'', JStr ''A mug''),
      (''image'', JStr ''https://example.com/mug.png''), (''category'', JStr ''kitchen'')]"

text \<open>The body that \<open>addUser\<close> posts, read off the arguments.\<close>

definition user_body :: "(string \<times> jsval) list \<Rightarrow> jsval" where
  "user_body a =
     JObj [(''email'', get_prop a ''email''), (''username'', get_prop a ''username''),
           (''password'', get_prop a ''password''),
           (''name'', JObj [(''firstname'', get_prop a ''firstname''),
                            (''lastname'', get_prop a ''lastname'')]),
           (''address'',
              JObj [(''city'', get_prop a ''city''), (''street'', get_prop a ''street''),
                    (''number'', get_prop a ''number''), (''zipcode'', get_prop a ''zipcode''),
                    (''geolocation'', JObj [(''lat'', get_prop a ''lat''),
                                            (''long'', get_prop a ''long'')])]),
           (''phone'', get_prop a ''phone'')]"

text \<open>
  More sample inputs: the arguments of \<open>addUser\<close> for a user with a given email, and
  arguments for the cart tools with one product entry of a given \<open>productId\<close>.
\<close>

definition ada :: "string \<Rightarrow> (string \<times> jsval) list" where
  "ada email =
     [(''email'', JStr email), (''username'', JStr ''ada''), (''password'', JStr ''s3cret''),
      (''firstname'', JStr ''Ada''), (''lastname'', JStr ''Lovelace'')]"

definition cart_args :: "jsval \<Rightarrow> (string \<times> jsval) list" where
  "cart_args productId =
     [(''id'', JNum (Fin 3)), (''userId'', JNum (Fin 1)), (''date'', JStr ''2024-01-01''),
      (''products'', JArr [JObj [(''productId'', productId), (''quantity'', JNum (Fin 1))]])]"

definition bad_ids :: "jsval \<Rightarrow> (string \<times> jsval) list" where
  "bad_ids v = [(''id'', v), (''userId'', v), (''limit'', v)]"

text \<open>
  \<open>n\<close> calls of \<open>get('/products')\<close> in a row at the time \<open>now\<close>, on a transport that
  answers; the state of the HTTP module afterwards.
\<close>

primrec burst :: "nat \<Rightarrow> nat \<Rightarrow> api_state \<Rightarrow> api_state" where
  "burst 0 now st = st"
| "burst (Suc n) now st = snd (get net_ok now (Path ''/products'') None (burst n now st))"

section \<open>The HTTP wrapper in one equation\<close>

lemma show_nat_RATE_LIMIT: "show_nat RATE_LIMIT = ''100''"
  unfolding RATE_LIMIT_def by code_simp

lemma wrap_eq:
  "wrap net now req st =
     (if requestCount st < RATE_LIMIT
      then (case net req of
              Response d \<Rightarrow> Inr d
            | Rejected e \<Rightarrow> Inl (ApiErrorObj (handleApiError e)),
            st\<lparr>requestCount := requestCount st + 1,
               timers := timers st @ [now + RATE_LIMIT_WINDOW],
               forwarded := forwarded st @ [req]\<rparr>)
      else (Inl (ApiErrorObj
                   \<lparr>message = ''Rate limit exceeded. Maximum 100 requests per minute allowed.'',
                    status = None, code = None\<rparr>),
            st\<lparr>requestCount := requestCount st + 1\<rparr>))"
  by (auto simp: wrap_def api_call_def interceptor_def Let_def show_nat_RATE_LIMIT
      split: outcome.splits)

section \<open>How a tool function ends\<close>




lemma validatePositiveInteger_error:
  "validatePositiveInteger v f = Inl e \<Longrightarrow> e = ErrorInst (f @ '' must be a positive integer'')"
  by (auto simp: validatePositiveInteger_def split: jsval.splits if_splits)




lemma read_prop_error: "read_prop v k = Inl e \<Longrightarrow> \<exists>m. e = ErrorInst m"
  by (cases v) auto

lemma check_products_error: "check_products i ps = Inl e \<Longrightarrow> \<exists>m. e = ErrorInst m"
  by (induction ps arbitrary: i) (auto split: sum.splits if_splits dest: read_prop_error)





















section \<open>Sort order\<close>

text \<open>
  C7. For every value passed as a sort order, validation succeeds exactly when the value
  is absent (\<open>undefined\<close>) or is one of the two tokens \<open>asc\<close> and \<open>desc\<close>; every other
  value is rejected, and so are the case variants \<open>ASC\<close> and \<open>Desc\<close>.
\<close>

theorem validateSortOrder_accepts_iff:
  "(validateSortOrder v = Inr ())
     = (v = JUndefined \<or> v = JStr ''asc'' \<or> v = JStr ''desc'')
   \<and> (\<exists>m. validateSortOrder (JStr ''ASC'') = Inl (ErrorInst m))
   \<and> (\<exists>m. validateSortOrder (JStr ''Desc'') = Inl (ErrorInst m))"
  by (simp add: validateSortOrder_def)

theorem validateSortOrder_accepts_iff_witness:
  "validateSortOrder (JStr ''desc'') = Inr () \<and> validateSortOrder (JStr ''DESC'') \<noteq> Inr ()"
  using validateSortOrder_accepts_iff [of "JStr ''desc''"]
    validateSortOrder_accepts_iff [of "JStr ''DESC''"]
  by simp

section \<open>Path sanitizing\<close>

text \<open>
  C5. \<open>getProductsByCategory\<close> with the category \<open>electronics/accessories\<close> percent-encodes
  the slash: the request it hands to the wrapper is a GET of
  \<open>/products/category/electronics%2Faccessories\<close>, and that is the request forwarded
  when the rate limit lets it through.
\<close>

theorem getProductsByCategory_encodes_slash:
  "sanitizePathSegment ''electronics/accessories'' = ''electronics%2Faccessories''
   \<and> (get_prop a ''category'' = JStr ''electronics/accessories'' \<longrightarrow>
        getProductsByCategory net now (Some a) st
          = get net now (Path ''/products/category/electronics%2Faccessories'') None st
        \<and> (requestCount st < RATE_LIMIT \<longrightarrow>
             forwarded (snd (getProductsByCategory net now (Some a) st))
               = forwarded st @ [GET (Path ''/products/category/electronics%2Faccessories'') None]))"
proof -
  have s: "sanitizePathSegment ''electronics/accessories'' = ''electronics%2Faccessories''"
    by code_simp
  show ?thesis
    by (simp add: s getProductsByCategory_def get_def wrap_eq)
qed

theorem getProductsByCategory_encodes_slash_witness:
  "getProductsByCategory net_ok 0 (Some [(''category'', JStr ''electronics/accessories'')]) st0
     = (Inr JNull,
        \<lparr>requestCount = 1, timers = [60000],
         forwarded = [GET (Path ''/products/category/electronics%2Faccessories'') None]\<rparr>)"
  using getProductsByCategory_encodes_slash
          [of "[(''category'', JStr ''electronics/accessories'')]" net_ok 0 st0]
  by (simp add: get_prop_def get_def wrap_eq st0_def net_ok_def RATE_LIMIT_def
        RATE_LIMIT_WINDOW_def)

section \<open>The HTTP wrapper normalizes every failure\<close>

lemma wrapper_op_wrap: "wrapper_op net now req st = wrap net now req st"
  by (cases req) (simp_all add: wrapper_op_def get_def post_def put_def del_def)

text \<open>
  C9. Every call of \<open>get\<close>, \<open>post\<close>, \<open>put\<close> or \<open>del\<close> ends with the response data, which is
  what the transport answered, or throws an \<open>ApiError\<close> object (a message, an optional
  status, an optional code): whatever the transport or the interceptor raised is caught
  and replaced. An \<open>AxiosError\<close> gives its message (or \<open>API request failed\<close> when that is
  empty), the status of its response and its code; another \<open>Error\<close> gives its message.
\<close>

theorem wrapper_result_normalized:
  "normalized (fst (wrapper_op net now req st))
   \<and> (fst (wrapper_op net now req st) = Inr d \<longrightarrow> net req = Response d)
   \<and> (requestCount st < RATE_LIMIT \<longrightarrow> net req = Rejected (AxiosError m s c) \<longrightarrow>
        fst (wrapper_op net now req st)
          = Inl (ApiErrorObj \<lparr>message = (if m \<noteq> [] then m else ''API request failed''),
                              status = s, code = c\<rparr>))
   \<and> (requestCount st < RATE_LIMIT \<longrightarrow> net req = Rejected (ErrorInst m) \<longrightarrow>
        fst (wrapper_op net now req st)
          = Inl (ApiErrorObj \<lparr>message = m, status = None, code = None\<rparr>))"
  by (auto simp: wrapper_op_wrap wrap_eq split: outcome.splits)

theorem wrapper_result_normalized_witness:
  "fst (get (\<lambda>r. Rejected (AxiosError ''Request failed with status code 500'' (Some 500)
                             (Some ''ERR_BAD_RESPONSE''))) 0 (Path ''/products'') None st0)
     = Inl (ApiErrorObj \<lparr>message = ''Request failed with status code 500'',
                         status = Some 500, code = Some ''ERR_BAD_RESPONSE''\<rparr>)
   \<and> fst (get net_ok 0 (Path ''/products'') None st0) = Inr JNull"
  using wrapper_result_normalized
          [of "\<lambda>r. Rejected (AxiosError ''Request failed with status code 500'' (Some 500)
                               (Some ''ERR_BAD_RESPONSE''))"
              0 "GET (Path ''/products'') None" st0 JNull
              "''Request failed with status code 500''" "Some 500" "Some ''ERR_BAD_RESPONSE''"]
        wrapper_result_normalized [of net_ok 0 "GET (Path ''/products'') None" st0 JNull]
  by (simp add: wrapper_op_def st0_def RATE_LIMIT_def get_def wrap_eq net_ok_def)

section \<open>The rate limiter\<close>

lemma fold_timer_callback:
  "requestCount (fold (\<lambda>t s. timer_callback s) ts st) = requestCount st - length ts"
  by (induction ts arbitrary: st) (auto simp: timer_callback_def)

text \<open>
  What the interceptor does. Every request entering the axios instance increments the
  counter. When the incremented counter is at most the cap of 100, a decrement is
  scheduled 60000 ms later and the request is forwarded; when it exceeds the cap, the
  request is not forwarded and fails with the rate-limit error, and no decrement is
  scheduled for it. A timer callback takes one off the counter (never below zero), and
  running the timers due at a time removes them.
\<close>

lemma interceptor_counter:
  "RATE_LIMIT = 100 \<and> RATE_LIMIT_WINDOW = 60000
   \<and> requestCount (snd (api_call net now req st)) = requestCount st + 1
   \<and> (requestCount st + 1 \<le> RATE_LIMIT \<longrightarrow>
        timers (snd (api_call net now req st)) = timers st @ [now + RATE_LIMIT_WINDOW]
        \<and> forwarded (snd (api_call net now req st)) = forwarded st @ [req])
   \<and> (RATE_LIMIT < requestCount st + 1 \<longrightarrow>
        api_call net now req st
          = (Inl (ErrorInst ''Rate limit exceeded. Maximum 100 requests per minute allowed.''),
             st\<lparr>requestCount := requestCount st + 1\<rparr>))
   \<and> requestCount (timer_callback st) = requestCount st - 1
   \<and> requestCount (run_timers t st) = requestCount st - length (filter (\<lambda>d. d \<le> t) (timers st))
   \<and> timers (run_timers t st) = filter (\<lambda>d. \<not> d \<le> t) (timers st)"
proof -
  have a: "requestCount (snd (api_call net now req st)) = requestCount st + 1"
    by (simp add: api_call_def interceptor_def Let_def split: outcome.splits)
  have b: "requestCount st + 1 \<le> RATE_LIMIT \<longrightarrow>
        timers (snd (api_call net now req st)) = timers st @ [now + RATE_LIMIT_WINDOW]
        \<and> forwarded (snd (api_call net now req st)) = forwarded st @ [req]"
    by (simp add: api_call_def interceptor_def Let_def split: outcome.splits)
  have c: "RATE_LIMIT < requestCount st + 1 \<longrightarrow>
        api_call net now req st
          = (Inl (ErrorInst ''Rate limit exceeded. Maximum 100 requests per minute allowed.''),
             st\<lparr>requestCount := requestCount st + 1\<rparr>)"
    by (simp add: api_call_def interceptor_def Let_def show_nat_RATE_LIMIT)
  have d: "requestCount (timer_callback st) = requestCount st - 1"
    by (simp add: timer_callback_def)
  have e: "requestCount (run_timers t st)
             = requestCount st - length (filter (\<lambda>d. d \<le> t) (timers st))"
    by (simp add: run_timers_def fold_timer_callback)
  have f: "timers (run_timers t st) = filter (\<lambda>d. \<not> d \<le> t) (timers st)"
    by (simp add: run_timers_def)
  from a b c d e f show ?thesis
    by (simp add: RATE_LIMIT_def RATE_LIMIT_WINDOW_def)
qed

lemma interceptor_counter_example:
  "api_call net_ok 5 (DELETE (Path ''/x'')) st0
     = (Inr JNull, \<lparr>requestCount = 1, timers = [60005], forwarded = [DELETE (Path ''/x'')]\<rparr>)
   \<and> api_call net_ok 5 (DELETE (Path ''/x'')) (st0\<lparr>requestCount := 100\<rparr>)
     = (Inl (ErrorInst ''Rate limit exceeded. Maximum 100 requests per minute allowed.''),
        \<lparr>requestCount = 101, timers = [], forwarded = []\<rparr>)"
  using interceptor_counter [of net_ok 5 "DELETE (Path ''/x'')" st0 0]
    interceptor_counter [of net_ok 5 "DELETE (Path ''/x'')" "st0\<lparr>requestCount := 100\<rparr>" 0]
  by (simp add: st0_def net_ok_def api_call_def interceptor_def Let_def)

lemma get_state:
  "snd (get net now ep ps st) =
     (if requestCount st < RATE_LIMIT
      then st\<lparr>requestCount := requestCount st + 1,
              timers := timers st @ [now + RATE_LIMIT_WINDOW],
              forwarded := forwarded st @ [GET ep ps]\<rparr>
      else st\<lparr>requestCount := requestCount st + 1\<rparr>)"
  by (simp add: get_def wrap_eq)

lemma burst_below:
  "n \<le> RATE_LIMIT \<Longrightarrow>
     burst n now st0 =
       \<lparr>requestCount = n, timers = replicate n (now + RATE_LIMIT_WINDOW),
        forwarded = replicate n (GET (Path ''/products'') None)\<rparr>"
proof (induction n)
  case 0
  show ?case by (simp add: st0_def)
next
  case (Suc n)
  then show ?case by (simp add: get_state replicate_append_same)
qed

lemma burst_above:
  "burst (RATE_LIMIT + k) now st0 =
       \<lparr>requestCount = RATE_LIMIT + k, timers = replicate RATE_LIMIT (now + RATE_LIMIT_WINDOW),
        forwarded = replicate RATE_LIMIT (GET (Path ''/products'') None)\<rparr>"
proof (induction k)
  case 0
  show ?case using burst_below [of RATE_LIMIT now] by simp
next
  case (Suc k)
  then show ?case by (simp add: get_state)
qed

lemma fold_timer_callback_state:
  "fold (\<lambda>t s. timer_callback s) ts st = st\<lparr>requestCount := requestCount st - length ts\<rparr>"
  by (induction ts arbitrary: st) (auto simp: timer_callback_def)

lemma run_timers_eq:
  "run_timers now st =
     st\<lparr>requestCount := requestCount st - length (filter (\<lambda>t. t \<le> now) (timers st)),
        timers := filter (\<lambda>t. \<not> t \<le> now) (timers st)\<rparr>"
  unfolding run_timers_def fold_timer_callback_state by simp

lemma run_timers_burst:
  "run_timers (now + RATE_LIMIT_WINDOW) (burst (RATE_LIMIT + k) now st0) =
     \<lparr>requestCount = k, timers = [],
      forwarded = replicate RATE_LIMIT (GET (Path ''/products'') None)\<rparr>"
  by (simp add: run_timers_eq burst_above)

text \<open>
  C8. Every request increments the counter, but not every request schedules a
  decrement: the interceptor throws before \<open>setTimeout\<close> when the cap is exceeded. After
  100 requests at time 0 the 101st is refused, raises the counter to 101 and adds no
  timer; when the 100 timers have run at 60000 ms the counter is 1, not 0. After 200
  requests the counter stays at 100 once all timers have run, no timer is left, and a
  request an hour later is still refused with "Maximum 100 requests per minute allowed".
\<close>

theorem refused_request_leaks_counter:
  "fst (get net_ok 0 (Path ''/products'') None (burst 100 0 st0))
     = Inl (ApiErrorObj
              \<lparr>message = ''Rate limit exceeded. Maximum 100 requests per minute allowed.'',
               status = None, code = None\<rparr>)
   \<and> requestCount (burst 101 0 st0) = 101
   \<and> timers (burst 101 0 st0) = timers (burst 100 0 st0)
   \<and> length (timers (burst 101 0 st0)) = 100
   \<and> run_timers 60000 (burst 101 0 st0)
       = \<lparr>requestCount = 1, timers = [],
          forwarded = replicate 100 (GET (Path ''/products'') None)\<rparr>
   \<and> run_timers 60000 (burst 200 0 st0)
       = \<lparr>requestCount = 100, timers = [],
          forwarded = replicate 100 (GET (Path ''/products'') None)\<rparr>
   \<and> get net_ok 3600000 (Path ''/products'') None (run_timers 60000 (burst 200 0 st0))
       = (Inl (ApiErrorObj
                 \<lparr>message = ''Rate limit exceeded. Maximum 100 requests per minute allowed.'',
                  status = None, code = None\<rparr>),
          \<lparr>requestCount = 101, timers = [],
           forwarded = replicate 100 (GET (Path ''/products'') None)\<rparr>)"
proof -
  have b100: "burst 100 0 st0 =
       \<lparr>requestCount = 100, timers = replicate 100 60000,
        forwarded = replicate 100 (GET (Path ''/products'') None)\<rparr>"
    using burst_below [of 100 0] by (simp add: RATE_LIMIT_def RATE_LIMIT_WINDOW_def)
  have b101: "burst 101 0 st0 =
       \<lparr>requestCount = 101, timers = replicate 100 60000,
        forwarded = replicate 100 (GET (Path ''/products'') None)\<rparr>"
    using burst_above [of 1 0] by (simp add: RATE_LIMIT_def RATE_LIMIT_WINDOW_def)
  have r101: "run_timers 60000 (burst 101 0 st0)
       = \<lparr>requestCount = 1, timers = [],
          forwarded = replicate 100 (GET (Path ''/products'') None)\<rparr>"
    using run_timers_burst [of 0 1] by (simp add: RATE_LIMIT_def RATE_LIMIT_WINDOW_def)
  have r200: "run_timers 60000 (burst 200 0 st0)
       = \<lparr>requestCount = 100, timers = [],
          forwarded = replicate 100 (GET (Path ''/products'') None)\<rparr>"
    using run_timers_burst [of 0 100] by (simp add: RATE_LIMIT_def RATE_LIMIT_WINDOW_def)
  have g1: "fst (get net_ok 0 (Path ''/products'') None (burst 100 0 st0))
     = Inl (ApiErrorObj
              \<lparr>message = ''Rate limit exceeded. Maximum 100 requests per minute allowed.'',
               status = None, code = None\<rparr>)"
    by (simp only: b100) (simp add: get_def wrap_eq RATE_LIMIT_def)
  have g2: "get net_ok 3600000 (Path ''/products'') None (run_timers 60000 (burst 200 0 st0))
       = (Inl (ApiErrorObj
                 \<lparr>message = ''Rate limit exceeded. Maximum 100 requests per minute allowed.'',
                  status = None, code = None\<rparr>),
          \<lparr>requestCount = 101, timers = [],
           forwarded = replicate 100 (GET (Path ''/products'') None)\<rparr>)"
    by (simp only: r200) (simp add: get_def wrap_eq RATE_LIMIT_def)
  have t: "timers (burst 101 0 st0) = timers (burst 100 0 st0)"
    by (simp only: b100 b101) simp
  have l: "length (timers (burst 101 0 st0)) = 100"
    by (simp only: b101) simp
  have c: "requestCount (burst 101 0 st0) = 101"
    by (simp only: b101) simp
  from g1 c t l r101 r200 g2 show ?thesis by (intro conjI)
qed

section \<open>Partial update of a user\<close>

text \<open>
  C6. \<open>updateUser\<close> with a valid id and, of the other arguments, only \<open>firstname\<close>
  supplied sends a body that holds the key \<open>name\<close> with the single key \<open>firstname\<close> in
  it and nothing else: no \<open>lastname\<close>, no \<open>address\<close>, no \<open>geolocation\<close>.
\<close>

theorem updateUser_firstname_only:
  assumes "validatePositiveInteger (get_prop a ''id'') ''User ID'' = Inr ()"
    and "get_prop a ''firstname'' \<noteq> JUndefined"
    and "\<forall>k \<in> set [''email'', ''username'', ''password'', ''lastname'', ''city'', ''street'',
                     ''number'', ''zipcode'', ''lat'', ''long'', ''phone''].
           get_prop a k = JUndefined"
  shows "updateUser net now (Some a) st =
     put net now (PathVal ''/users/'' (get_prop a ''id''))
       (JObj [(''name'', JObj [(''firstname'', get_prop a ''firstname'')])]) st"
  using assms by (simp add: updateUser_def user_update_data_def opt_field_def)

lemma validatePositiveInteger_7: "validatePositiveInteger (JNum (Fin 7)) f = Inr ()"
  by (simp add: validatePositiveInteger_def)

theorem updateUser_firstname_only_witness:
  "updateUser net_ok 0 (Some [(''id'', JNum (Fin 7)), (''firstname'', JStr ''Ada'')]) st0
     = (Inr JNull,
        \<lparr>requestCount = 1, timers = [60000],
         forwarded = [PUT (PathVal ''/users/'' (JNum (Fin 7)))
                        (JObj [(''name'', JObj [(''firstname'', JStr ''Ada'')])])]\<rparr>)"
  using updateUser_firstname_only
          [of "[(''id'', JNum (Fin 7)), (''firstname'', JStr ''Ada'')]" net_ok 0 st0]
  by (simp add: get_prop_def validatePositiveInteger_7 put_def wrap_eq st0_def net_ok_def
        RATE_LIMIT_def RATE_LIMIT_WINDOW_def)

section \<open>The dispatcher\<close>

text \<open>
  C3, as the claim states it, at the name \<open>fakestore_nope\<close>: the text of the envelope is
  not \<open>Unknown tool: fakestore_nope\<close>; the handler puts \<open>Error: \<close> in front of the message.
\<close>

theorem unknown_tool_text_has_prefix:
  "content_text (fst (handler url_demo net_ok 0 ''fakestore_nope'' None st0))
     \<noteq> Literal ''Unknown tool: fakestore_nope''
   \<and> handler url_demo net_ok 0 ''fakestore_nope'' None st0
     = (\<lparr>content_text = Literal ''Error: Unknown tool: fakestore_nope'', isError = True\<rparr>, st0)"
  by (simp add: handler_def call_tool_def)

text \<open>
  C3, amended. For every tool name that is none of the eighteen registered names, the
  \<open>try\<close> block throws an \<open>Error\<close> with the message \<open>Unknown tool: <name>\<close>, and the handler
  returns the error envelope (\<open>isError\<close> set) whose text is that message after the prefix
  \<open>Error: \<close>; nothing is thrown past the handler and the HTTP module is not touched.
\<close>

theorem unknown_tool_envelope:
  "name \<notin> set tool_names \<Longrightarrow>
     call_tool p net now name args st = (Inl (ErrorInst (''Unknown tool: '' @ name)), st)
     \<and> handler p net now name args st
         = (\<lparr>content_text = Literal (''Error: '' @ ''Unknown tool: '' @ name),
             isError = True\<rparr>, st)"
  by (simp add: handler_def call_tool_def tool_names_def)

theorem unknown_tool_envelope_witness:
  "handler url_demo net_ok 0 ''fakestore_get_produkts'' (Some []) st0
     = (\<lparr>content_text = Literal ''Error: Unknown tool: fakestore_get_produkts'',
         isError = True\<rparr>, st0)"
  using unknown_tool_envelope [of "''fakestore_get_produkts''" url_demo net_ok 0 "Some []" st0]
  by (simp add: tool_names_def)



text \<open>
  What the caller sees of an upstream 500: the wrapper throws a plain object, which is no
  \<open>Error\<close> instance, so the text is the fallback message.
\<close>

lemma handler_upstream_500:
  "handler p (\<lambda>r. Rejected (AxiosError ''Request failed with status code 500'' (Some 500)
                              (Some ''ERR_BAD_RESPONSE'')))
     0 ''fakestore_get_categories'' None st0
     = (\<lparr>content_text = Literal ''Error: Unknown error occurred'', isError = True\<rparr>,
        \<lparr>requestCount = 1, timers = [60000],
         forwarded = [GET (Path ''/products/categories'') None]\<rparr>)"
  by (simp add: handler_def call_tool_def getCategories_def get_def wrap_eq st0_def
        RATE_LIMIT_def RATE_LIMIT_WINDOW_def)

section \<open>Creating a product\<close>

lemma trim_mug_url: "trim ''https://example.com/mug.png'' \<noteq> []"
  by code_simp

text \<open>
  C4. \<open>addProduct\<close> with the price 0 or -5 throws a validation error and leaves the HTTP
  module untouched (the error is the one of the price, unless the title is already
  rejected). With the price 19.99, non-empty strings for title, description and category
  and an image that is an http or https URL, it calls \<open>post\<close> on \<open>/products\<close> with a body
  of exactly the five fields title, price, description, image and category.
\<close>

theorem addProduct_price_and_body:
  "(get_prop a ''price'' = JNum (Fin 0) \<or> get_prop a ''price'' = JNum (Fin (- 5)) \<longrightarrow>
      addProduct p net now (Some a) st
        = (Inl (ErrorInst (if not_nonempty_string (get_prop a ''title'')
                           then ''Title must be a non-empty string''
                           else ''Price must be a positive number'')), st))
   \<and> (get_prop a ''title'' = JStr t \<and> t \<noteq> [] \<and> get_prop a ''price'' = JNum (Fin (1999 / 100))
       \<and> get_prop a ''description'' = JStr d \<and> d \<noteq> []
       \<and> get_prop a ''image'' = JStr i \<and> trim i \<noteq> [] \<and> p i = Some pr
       \<and> (pr = ''http:'' \<or> pr = ''https:'')
       \<and> get_prop a ''category'' = JStr c \<and> c \<noteq> [] \<longrightarrow>
      addProduct p net now (Some a) st
        = post net now (Path ''/products'')
            (JObj [(''title'', JStr t), (''price'', JNum (Fin (1999 / 100))),
                   (''description'', JStr d), (''image'', JStr i), (''category'', JStr c)]) st
      \<and> (requestCount st < RATE_LIMIT \<longrightarrow>
           forwarded (snd (addProduct p net now (Some a) st))
             = forwarded st @
               [POST (Path ''/products'')
                  (JObj [(''title'', JStr t), (''price'', JNum (Fin (1999 / 100))),
                         (''description'', JStr d), (''image'', JStr i),
                         (''category'', JStr c)])]))"
  by (auto simp: addProduct_def Let_def not_positive_number_def not_nonempty_string_def
        validateUrl_def post_def wrap_eq)

theorem addProduct_price_and_body_witness:
  "addProduct url_demo net_ok 0 (Some (mug (JNum (Fin 0)))) st0
     = (Inl (ErrorInst ''Price must be a positive number''), st0)
   \<and> addProduct url_demo net_ok 0 (Some (mug (JNum (Fin (- 5))))) st0
     = (Inl (ErrorInst ''Price must be a positive number''), st0)
   \<and> addProduct url_demo net_ok 0 (Some (mug (JNum (Fin (1999 / 100))))) st0
     = (Inr JNull,
        \<lparr>requestCount = 1, timers = [60000],
         forwarded = [POST (Path ''/products'') (JObj (mug (JNum (Fin (1999 / 100)))))]\<rparr>)"
  using addProduct_price_and_body
          [where a = "mug (JNum (Fin 0))" and p = url_demo and net = net_ok and now = 0
             and st = st0]
        addProduct_price_and_body
          [where a = "mug (JNum (Fin (- 5)))" and p = url_demo and net = net_ok and now = 0
             and st = st0]
        addProduct_price_and_body
          [where a = "mug (JNum (Fin (1999 / 100)))" and p = url_demo and net = net_ok
             and now = 0 and st = st0 and t = "''Mug''" and d = "''A mug''"
             and i = "''https://example.com/mug.png''" and pr = "''https:''"
             and c = "''kitchen''"]
        trim_mug_url
  by (simp add: mug_def get_prop_def url_demo_def not_nonempty_string_def post_def wrap_eq
        st0_def net_ok_def RATE_LIMIT_def RATE_LIMIT_WINDOW_def)

section \<open>Creating a user\<close>

text \<open>
  C10. For every non-empty string given as \<open>email\<close>, the check of the email in \<open>addUser\<close>
  passes: with the four other checked fields (username, password, first and last name)
  non-empty strings, \<open>addUser\<close> calls \<open>post\<close> on \<open>/users\<close> with the email in the body, and
  whatever the other fields are, it never fails with an error about the email. The
  format check \<open>validateEmail\<close> plays no part: it rejects \<open>not-an-email\<close>, which
  \<open>addUser\<close> accepts.
\<close>

theorem addUser_no_email_format_check:
  "(e \<noteq> [] \<and> get_prop a ''email'' = JStr e
     \<and> \<not> not_nonempty_string (get_prop a ''username'')
     \<and> \<not> not_nonempty_string (get_prop a ''password'')
     \<and> \<not> not_nonempty_string (get_prop a ''firstname'')
     \<and> \<not> not_nonempty_string (get_prop a ''lastname'') \<longrightarrow>
       addUser net now (Some a) st = post net now (Path ''/users'') (user_body a) st
       \<and> (requestCount st < RATE_LIMIT \<longrightarrow>
            forwarded (snd (addUser net now (Some a) st))
              = forwarded st @ [POST (Path ''/users'') (user_body a)]))
   \<and> (e \<noteq> [] \<and> get_prop a ''email'' = JStr e \<longrightarrow>
        fst (addUser net now (Some a) st) \<noteq> Inl (ErrorInst ''Email must be a non-empty string'')
        \<and> fst (addUser net now (Some a) st) \<noteq> Inl (ErrorInst ''Invalid email format''))
   \<and> validateEmail (JStr ''not-an-email'') = Inl (ErrorInst ''Invalid email format'')"
proof -
  have v: "validateEmail (JStr ''not-an-email'') = Inl (ErrorInst ''Invalid email format'')"
    by code_simp
  have a: "e \<noteq> [] \<and> get_prop a ''email'' = JStr e
     \<and> \<not> not_nonempty_string (get_prop a ''username'')
     \<and> \<not> not_nonempty_string (get_prop a ''password'')
     \<and> \<not> not_nonempty_string (get_prop a ''firstname'')
     \<and> \<not> not_nonempty_string (get_prop a ''lastname'') \<longrightarrow>
       addUser net now (Some a) st = post net now (Path ''/users'') (user_body a) st
       \<and> (requestCount st < RATE_LIMIT \<longrightarrow>
            forwarded (snd (addUser net now (Some a) st))
              = forwarded st @ [POST (Path ''/users'') (user_body a)])"
    by (simp add: addUser_def Let_def not_nonempty_string_def user_body_def post_def wrap_eq)
  have b: "e \<noteq> [] \<and> get_prop a ''email'' = JStr e \<longrightarrow>
        fst (addUser net now (Some a) st) \<noteq> Inl (ErrorInst ''Email must be a non-empty string'')
        \<and> fst (addUser net now (Some a) st) \<noteq> Inl (ErrorInst ''Invalid email format'')"
    by (auto simp: addUser_def Let_def not_nonempty_string_def post_def wrap_eq
        split: outcome.splits)
  from v a b show ?thesis by blast
qed

theorem addUser_no_email_format_check_witness:
  "addUser net_ok 0 (Some (ada ''not-an-email'')) st0
     = (Inr JNull,
        \<lparr>requestCount = 1, timers = [60000],
         forwarded = [POST (Path ''/users'') (user_body (ada ''not-an-email''))]\<rparr>)"
  using addUser_no_email_format_check
          [where e = "''not-an-email''" and a = "ada ''not-an-email''" and net = net_ok
             and now = 0 and st = st0]
  by (simp add: ada_def get_prop_def not_nonempty_string_def post_def wrap_eq
        st0_def net_ok_def RATE_LIMIT_def RATE_LIMIT_WINDOW_def)

section \<open>Identifiers, limits and quantities\<close>

lemma positive_integer_iff:
  "positive_integer v \<longleftrightarrow> (\<exists>k::int. 0 < k \<and> v = JNum (Fin (of_int k)))"
proof
  assume "positive_integer v"
  then obtain r where v: "v = JNum (Fin r)" and r: "0 < r" "of_int \<lfloor>r\<rfloor> = r"
    by (cases v rule: positive_integer.cases) auto
  from r have "0 < \<lfloor>r\<rfloor>" by (metis of_int_0_less_iff)
  with v r show "\<exists>k::int. 0 < k \<and> v = JNum (Fin (of_int k))" by metis
next
  assume "\<exists>k::int. 0 < k \<and> v = JNum (Fin (of_int k))"
  then show "positive_integer v" by auto
qed

lemma validatePositiveInteger_iff:
  "validatePositiveInteger v f = Inr () \<longleftrightarrow> positive_integer v"
  by (cases v rule: positive_integer.cases)
     (auto simp: validatePositiveInteger_def not_le)

lemma validatePositiveInteger_fails:
  "\<not> positive_integer v \<Longrightarrow>
     validatePositiveInteger v f = Inl (ErrorInst (f @ '' must be a positive integer''))"
  using validatePositiveInteger_iff [of v f] validatePositiveInteger_error [of v f]
  by (cases "validatePositiveInteger v f") auto

lemma validateLimit_fails:
  "\<not> positive_integer v \<Longrightarrow> v \<noteq> JUndefined \<Longrightarrow>
     validateLimit v = Inl (ErrorInst ''Limit must be a positive integer'')"
  by (cases v rule: positive_integer.cases)
     (auto simp: validateLimit_def not_le)

lemma check_products_ok:
  "check_products i ps = Inr () \<Longrightarrow> entry \<in> set ps \<Longrightarrow>
     (\<exists>w. read_prop entry ''productId'' = Inr w \<and> \<not> not_positive_number w)
     \<and> (\<exists>w. read_prop entry ''quantity'' = Inr w \<and> \<not> not_positive_number w)"
  by (induction ps arbitrary: i) (auto split: sum.splits if_splits)

lemma check_products_bad:
  assumes "entry \<in> set ps"
    and "read_prop entry ''productId'' = Inr w \<or> read_prop entry ''quantity'' = Inr w"
    and "not_positive_number w"
  shows "\<exists>m. check_products i ps = Inl (ErrorInst m)"
proof (cases "check_products i ps")
  case (Inl e)
  then show ?thesis using check_products_error by blast
next
  case (Inr u)
  then have "check_products i ps = Inr ()" by simp
  from check_products_ok [OF this assms(1)] assms(2,3) show ?thesis by auto
qed

lemma invalid_id_rejected:
  assumes "\<not> positive_integer v" and "get_prop a ''id'' = v"
  shows "getProductById net now (Some a) st
           = (Inl (ErrorInst ''Product ID must be a positive integer''), st)"
    and "updateProduct p net now (Some a) st
           = (Inl (ErrorInst ''Product ID must be a positive integer''), st)"
    and "deleteProduct net now (Some a) st
           = (Inl (ErrorInst ''Product ID must be a positive integer''), st)"
    and "getCartById net now (Some a) st
           = (Inl (ErrorInst ''Cart ID must be a positive integer''), st)"
    and "updateCart net now (Some a) st
           = (Inl (ErrorInst ''Cart ID must be a positive integer''), st)"
    and "deleteCart net now (Some a) st
           = (Inl (ErrorInst ''Cart ID must be a positive integer''), st)"
    and "getUserById net now (Some a) st
           = (Inl (ErrorInst ''User ID must be a positive integer''), st)"
    and "updateUser net now (Some a) st
           = (Inl (ErrorInst ''User ID must be a positive integer''), st)"
    and "deleteUser net now (Some a) st
           = (Inl (ErrorInst ''User ID must be a positive integer''), st)"
  using assms
  by (simp_all add: validatePositiveInteger_fails getProductById_def updateProduct_def
        deleteProduct_def getCartById_def updateCart_def deleteCart_def getUserById_def
        updateUser_def deleteUser_def)

lemma invalid_userId_rejected:
  assumes "\<not> positive_integer v" and "get_prop a ''userId'' = v"
  shows "getUserCarts net now (Some a) st
           = (Inl (ErrorInst ''User ID must be a positive integer''), st)"
    and "addCart net now (Some a) st
           = (Inl (ErrorInst ''User ID must be a positive integer''), st)"
    and "v \<noteq> JUndefined \<longrightarrow> (\<exists>m. updateCart net now (Some a) st = (Inl (ErrorInst m), st))"
  using assms
  by (auto simp add: validatePositiveInteger_fails getUserCarts_def addCart_def
        updateCart_def Let_def
      split: sum.splits dest: validatePositiveInteger_error)

lemma invalid_limit_rejected:
  assumes "\<not> positive_integer v" and "get_prop a ''limit'' = v" and "v \<noteq> JUndefined"
  shows "getAllProducts net now (Some a) st
           = (Inl (ErrorInst ''Limit must be a positive integer''), st)"
    and "getAllCarts net now (Some a) st
           = (Inl (ErrorInst ''Limit must be a positive integer''), st)"
    and "getAllUsers net now (Some a) st
           = (Inl (ErrorInst ''Limit must be a positive integer''), st)"
  using assms
  by (simp_all add: validateLimit_fails getAllProducts_def getAllCarts_def getAllUsers_def)

lemma invalid_entry_rejected:
  assumes "get_prop a ''products'' = JArr ps" and "entry \<in> set ps"
    and "read_prop entry ''productId'' = Inr w \<or> read_prop entry ''quantity'' = Inr w"
    and "not_positive_number w"
  shows "\<exists>m. addCart net now (Some a) st = (Inl (ErrorInst m), st)"
proof -
  obtain m where "check_products 0 ps = Inl (ErrorInst m)"
    using check_products_bad [OF assms(2,3,4)] by blast
  with assms(1,2) show ?thesis
    by (auto simp: addCart_def Let_def split: sum.splits dest: validatePositiveInteger_error)
qed

lemma validatePositiveInteger_1_3:
  "validatePositiveInteger (JNum (Fin 1)) f = Inr ()"
  "validatePositiveInteger (JNum (Fin 3)) f = Inr ()"
  by (simp_all add: validatePositiveInteger_def)

lemma not_positive_integer_half: "\<not> positive_integer (JNum (Fin (3 / 2)))"
  by code_simp

lemma show_nat_1: "show_nat (Suc 0) = ''1''"
  by code_simp

text \<open>
  C1, as the claim states it, fails on the entries of a cart: \<open>addCart\<close> accepts the
  \<open>productId\<close> 1.5, which is no integer, and sends the request; \<open>updateCart\<close> does not
  look into the entries at all and sends a \<open>productId\<close> of -1.
\<close>

theorem cart_entries_not_integer_checked:
  "\<not> positive_integer (JNum (Fin (3 / 2)))
   \<and> addCart net_ok 0 (Some (cart_args (JNum (Fin (3 / 2))))) st0
       = (Inr JNull,
          \<lparr>requestCount = 1, timers = [60000],
           forwarded = [POST (Path ''/carts'')
              (JObj [(''userId'', JNum (Fin 1)), (''date'', JStr ''2024-01-01''),
                     (''products'', JArr [JObj [(''productId'', JNum (Fin (3 / 2))),
                                                (''quantity'', JNum (Fin 1))]])])]\<rparr>)
   \<and> \<not> positive_integer (JNum (Fin (- 1)))
   \<and> updateCart net_ok 0 (Some (cart_args (JNum (Fin (- 1))))) st0
       = (Inr JNull,
          \<lparr>requestCount = 1, timers = [60000],
           forwarded = [PUT (PathVal ''/carts/'' (JNum (Fin 3)))
              (JObj [(''userId'', JNum (Fin 1)), (''date'', JStr ''2024-01-01''),
                     (''products'', JArr [JObj [(''productId'', JNum (Fin (- 1))),
                                                (''quantity'', JNum (Fin 1))]])])]\<rparr>)"
proof -
  have b: "\<not> positive_integer (JNum (Fin (- 1)))" by simp
  have c: "addCart net_ok 0 (Some (cart_args (JNum (Fin (3 / 2))))) st0
       = (Inr JNull,
          \<lparr>requestCount = 1, timers = [60000],
           forwarded = [POST (Path ''/carts'')
              (JObj [(''userId'', JNum (Fin 1)), (''date'', JStr ''2024-01-01''),
                     (''products'', JArr [JObj [(''productId'', JNum (Fin (3 / 2))),
                                                (''quantity'', JNum (Fin 1))]])])]\<rparr>)"
    by (simp add: addCart_def Let_def cart_args_def get_prop_def validatePositiveInteger_1_3
          not_nonempty_string_def not_positive_number_def post_def wrap_eq st0_def net_ok_def
          RATE_LIMIT_def RATE_LIMIT_WINDOW_def)
  have d: "updateCart net_ok 0 (Some (cart_args (JNum (Fin (- 1))))) st0
       = (Inr JNull,
          \<lparr>requestCount = 1, timers = [60000],
           forwarded = [PUT (PathVal ''/carts/'' (JNum (Fin 3)))
              (JObj [(''userId'', JNum (Fin 1)), (''date'', JStr ''2024-01-01''),
                     (''products'', JArr [JObj [(''productId'', JNum (Fin (- 1))),
                                                (''quantity'', JNum (Fin 1))]])])]\<rparr>)"
    by (simp add: updateCart_def Let_def cart_args_def get_prop_def validatePositiveInteger_1_3
          opt_field_def put_def wrap_eq st0_def net_ok_def RATE_LIMIT_def
          RATE_LIMIT_WINDOW_def)
  from not_positive_integer_half b c d show ?thesis by blast
qed

text \<open>
  C1, amended. A value that is not a positive integer, given as \<open>id\<close> or \<open>userId\<close> of
  any tool, or given (not \<open>undefined\<close>) as \<open>limit\<close> of a list operation or as \<open>userId\<close>
  of \<open>updateCart\<close>, makes the tool throw a validation error and leave the HTTP module
  untouched: no request is sent. In \<open>addCart\<close>, an entry of \<open>products\<close> whose \<open>productId\<close>
  or \<open>quantity\<close> is not a number, or is a number \<open><= 0\<close>, does the same; a positive
  number that is no integer passes there.
\<close>

theorem id_limit_quantity_validation:
  "(\<not> positive_integer v \<and> get_prop a ''id'' = v \<longrightarrow>
      getProductById net now (Some a) st
        = (Inl (ErrorInst ''Product ID must be a positive integer''), st)
      \<and> updateProduct p net now (Some a) st
        = (Inl (ErrorInst ''Product ID must be a positive integer''), st)
      \<and> deleteProduct net now (Some a) st
        = (Inl (ErrorInst ''Product ID must be a positive integer''), st)
      \<and> getCartById net now (Some a) st
        = (Inl (ErrorInst ''Cart ID must be a positive integer''), st)
      \<and> updateCart net now (Some a) st
        = (Inl (ErrorInst ''Cart ID must be a positive integer''), st)
      \<and> deleteCart net now (Some a) st
        = (Inl (ErrorInst ''Cart ID must be a positive integer''), st)
      \<and> getUserById net now (Some a) st
        = (Inl (ErrorInst ''User ID must be a positive integer''), st)
      \<and> updateUser net now (Some a) st
        = (Inl (ErrorInst ''User ID must be a positive integer''), st)
      \<and> deleteUser net now (Some a) st
        = (Inl (ErrorInst ''User ID must be a positive integer''), st))
   \<and> (\<not> positive_integer v \<and> get_prop a ''userId'' = v \<longrightarrow>
      getUserCarts net now (Some a) st
        = (Inl (ErrorInst ''User ID must be a positive integer''), st)
      \<and> addCart net now (Some a) st
        = (Inl (ErrorInst ''User ID must be a positive integer''), st)
      \<and> (v \<noteq> JUndefined \<longrightarrow>
           (\<exists>m. updateCart net now (Some a) st = (Inl (ErrorInst m), st))))
   \<and> (\<not> positive_integer v \<and> v \<noteq> JUndefined \<and> get_prop a ''limit'' = v \<longrightarrow>
      getAllProducts net now (Some a) st
        = (Inl (ErrorInst ''Limit must be a positive integer''), st)
      \<and> getAllCarts net now (Some a) st
        = (Inl (ErrorInst ''Limit must be a positive integer''), st)
      \<and> getAllUsers net now (Some a) st
        = (Inl (ErrorInst ''Limit must be a positive integer''), st))
   \<and> (get_prop a ''products'' = JArr ps \<and> entry \<in> set ps
       \<and> (read_prop entry ''productId'' = Inr w \<or> read_prop entry ''quantity'' = Inr w)
       \<and> not_positive_number w \<longrightarrow>
      (\<exists>m. addCart net now (Some a) st = (Inl (ErrorInst m), st)))"
proof -
  have i: "\<not> positive_integer v \<and> get_prop a ''id'' = v \<longrightarrow>
      getProductById net now (Some a) st
        = (Inl (ErrorInst ''Product ID must be a positive integer''), st)
      \<and> updateProduct p net now (Some a) st
        = (Inl (ErrorInst ''Product ID must be a positive integer''), st)
      \<and> deleteProduct net now (Some a) st
        = (Inl (ErrorInst ''Product ID must be a positive integer''), st)
      \<and> getCartById net now (Some a) st
        = (Inl (ErrorInst ''Cart ID must be a positive integer''), st)
      \<and> updateCart net now (Some a) st
        = (Inl (ErrorInst ''Cart ID must be a positive integer''), st)
      \<and> deleteCart net now (Some a) st
        = (Inl (ErrorInst ''Cart ID must be a positive integer''), st)
      \<and> getUserById net now (Some a) st
        = (Inl (ErrorInst ''User ID must be a positive integer''), st)
      \<and> updateUser net now (Some a) st
        = (Inl (ErrorInst ''User ID must be a positive integer''), st)
      \<and> deleteUser net now (Some a) st
        = (Inl (ErrorInst ''User ID must be a positive integer''), st)"
  proof
    assume "\<not> positive_integer v \<and> get_prop a ''id'' = v"
    then have h: "\<not> positive_integer v" "get_prop a ''id'' = v" by simp_all
    show "getProductById net now (Some a) st
        = (Inl (ErrorInst ''Product ID must be a positive integer''), st)
      \<and> updateProduct p net now (Some a) st
        = (Inl (ErrorInst ''Product ID must be a positive integer''), st)
      \<and> deleteProduct net now (Some a) st
        = (Inl (ErrorInst ''Product ID must be a positive integer''), st)
      \<and> getCartById net now (Some a) st
        = (Inl (ErrorInst ''Cart ID must be a positive integer''), st)
      \<and> updateCart net now (Some a) st
        = (Inl (ErrorInst ''Cart ID must be a positive integer''), st)
      \<and> deleteCart net now (Some a) st
        = (Inl (ErrorInst ''Cart ID must be a positive integer''), st)
      \<and> getUserById net now (Some a) st
        = (Inl (ErrorInst ''User ID must be a positive integer''), st)
      \<and> updateUser net now (Some a) st
        = (Inl (ErrorInst ''User ID must be a positive integer''), st)
      \<and> deleteUser net now (Some a) st
        = (Inl (ErrorInst ''User ID must be a positive integer''), st)"
      by (intro conjI; rule invalid_id_rejected [OF h])
  qed
  have u: "\<not> positive_integer v \<and> get_prop a ''userId'' = v \<longrightarrow>
      getUserCarts net now (Some a) st
        = (Inl (ErrorInst ''User ID must be a positive integer''), st)
      \<and> addCart net now (Some a) st
        = (Inl (ErrorInst ''User ID must be a positive integer''), st)
      \<and> (v \<noteq> JUndefined \<longrightarrow>
           (\<exists>m. updateCart net now (Some a) st = (Inl (ErrorInst m), st)))"
  proof
    assume "\<not> positive_integer v \<and> get_prop a ''userId'' = v"
    then have h: "\<not> positive_integer v" "get_prop a ''userId'' = v" by simp_all
    show "getUserCarts net now (Some a) st
        = (Inl (ErrorInst ''User ID must be a positive integer''), st)
      \<and> addCart net now (Some a) st
        = (Inl (ErrorInst ''User ID must be a positive integer''), st)
      \<and> (v \<noteq> JUndefined \<longrightarrow>
           (\<exists>m. updateCart net now (Some a) st = (Inl (ErrorInst m), st)))"
      by (intro conjI; rule invalid_userId_rejected [OF h])
  qed
  have l: "\<not> positive_integer v \<and> v \<noteq> JUndefined \<and> get_prop a ''limit'' = v \<longrightarrow>
      getAllProducts net now (Some a) st
        = (Inl (ErrorInst ''Limit must be a positive integer''), st)
      \<and> getAllCarts net now (Some a) st
        = (Inl (ErrorInst ''Limit must be a positive integer''), st)
      \<and> getAllUsers net now (Some a) st
        = (Inl (ErrorInst ''Limit must be a positive integer''), st)"
  proof
    assume "\<not> positive_integer v \<and> v \<noteq> JUndefined \<and> get_prop a ''limit'' = v"
    then have h: "\<not> positive_integer v" "get_prop a ''limit'' = v" "v \<noteq> JUndefined"
      by simp_all
    show "getAllProducts net now (Some a) st
        = (Inl (ErrorInst ''Limit must be a positive integer''), st)
      \<and> getAllCarts net now (Some a) st
        = (Inl (ErrorInst ''Limit must be a positive integer''), st)
      \<and> getAllUsers net now (Some a) st
        = (Inl (ErrorInst ''Limit must be a positive integer''), st)"
      by (intro conjI; rule invalid_limit_rejected [OF h])
  qed
  have e: "get_prop a ''products'' = JArr ps \<and> entry \<in> set ps
       \<and> (read_prop entry ''productId'' = Inr w \<or> read_prop entry ''quantity'' = Inr w)
       \<and> not_positive_number w \<longrightarrow>
      (\<exists>m. addCart net now (Some a) st = (Inl (ErrorInst m), st))"
  proof
    assume "get_prop a ''products'' = JArr ps \<and> entry \<in> set ps
       \<and> (read_prop entry ''productId'' = Inr w \<or> read_prop entry ''quantity'' = Inr w)
       \<and> not_positive_number w"
    then have h: "get_prop a ''products'' = JArr ps" "entry \<in> set ps"
      "read_prop entry ''productId'' = Inr w \<or> read_prop entry ''quantity'' = Inr w"
      "not_positive_number w"
      by simp_all
    show "\<exists>m. addCart net now (Some a) st = (Inl (ErrorInst m), st)"
      by (rule invalid_entry_rejected [OF h])
  qed
  from i u l e show ?thesis by (intro conjI)
qed

theorem id_limit_quantity_validation_witness:
  "getCartById net_ok 0 (Some (bad_ids (JNum (Fin (3 / 2))))) st0
     = (Inl (ErrorInst ''Cart ID must be a positive integer''), st0)
   \<and> getUserCarts net_ok 0 (Some (bad_ids (JNum (Fin (3 / 2))))) st0
     = (Inl (ErrorInst ''User ID must be a positive integer''), st0)
   \<and> getAllCarts net_ok 0 (Some (bad_ids (JNum (Fin (3 / 2))))) st0
     = (Inl (ErrorInst ''Limit must be a positive integer''), st0)
   \<and> addCart net_ok 0 (Some (cart_args (JNum (Fin 0)))) st0
     = (Inl (ErrorInst ''Product 1: productId must be a positive number''), st0)"
  using id_limit_quantity_validation
          [where v = "JNum (Fin (3 / 2))" and a = "bad_ids (JNum (Fin (3 / 2)))"
             and net = net_ok and now = 0 and st = st0]
        id_limit_quantity_validation
          [where a = "cart_args (JNum (Fin 0))" and net = net_ok and now = 0 and st = st0
             and ps = "[JObj [(''productId'', JNum (Fin 0)), (''quantity'', JNum (Fin 1))]]"
             and entry = "JObj [(''productId'', JNum (Fin 0)), (''quantity'', JNum (Fin 1))]"
             and w = "JNum (Fin 0)"]
        not_positive_integer_half
  by (simp add: bad_ids_def cart_args_def get_prop_def not_positive_number_def addCart_def
        Let_def validatePositiveInteger_1_3 not_nonempty_string_def show_nat_1)

end
